theory Spec2Isabelle
  imports Main "HOL-Library.Word"
begin

unbundle bit_operations_syntax

section \<open>The Microchip XEC GPIO driver (drivers/gpio/gpio_mchp_xec.c)\<close>

text \<open>
  A shallow embedding of the driver's functions. The driver talks to memory-mapped
  registers through volatile pointers; the model threads a record of the registers of
  one port through every function and logs each volatile access, each memory barrier and
  each handler call in a trace, in program order.
\<close>

subsection \<open>Constants of the headers\<close>

type_synonym u32 = "32 word"

text \<open>
  \<open>BIT(n)\<close> is \<open>1UL << n\<close>. In C the shift is defined for \<open>n < 32\<close> only; the
  theorems below that range over pins outside the valid bitmap keep to \<open>pin < 32\<close>.
\<close>

definition BIT :: "nat \<Rightarrow> u32" where
  "BIT n = push_bit n 1"

text \<open>
  The flag bits of \<open>drivers/gpio.h\<close>. The header is not among the sources, so
  the driver is modelled for any values of its macros.
\<close>

record gpio_flag_bits =
  GPIO_SINGLE_ENDED :: u32
  GPIO_LINE_OPEN_DRAIN :: u32
  GPIO_OPEN_DRAIN :: u32
  GPIO_PULL_UP :: u32
  GPIO_PULL_DOWN :: u32
  GPIO_OUTPUT :: u32
  GPIO_OUTPUT_INIT_HIGH :: u32
  GPIO_OUTPUT_INIT_LOW :: u32
  GPIO_DISCONNECTED :: u32
  GPIO_INT_ENABLE :: u32

text \<open>
  The field masks and field values of the pin control register (PCR1), from the SoC's
  register header, which is not among the sources either.
\<close>

record mchp_gpio_ctrl =
  MCHP_GPIO_CTRL_DIR_MASK :: u32
  MCHP_GPIO_CTRL_DIR_INPUT :: u32
  MCHP_GPIO_CTRL_DIR_OUTPUT :: u32
  MCHP_GPIO_CTRL_INPAD_DIS_MASK :: u32
  MCHP_GPIO_CTRL_PWRG_MASK :: u32
  MCHP_GPIO_CTRL_PWRG_OFF :: u32
  MCHP_GPIO_CTRL_PUD_MASK :: u32
  MCHP_GPIO_CTRL_PUD_PU :: u32
  MCHP_GPIO_CTRL_PUD_PD :: u32
  MCHP_GPIO_CTRL_BUFT_MASK :: u32
  MCHP_GPIO_CTRL_BUFT_OPENDRAIN :: u32
  MCHP_GPIO_CTRL_BUFT_PUSHPULL :: u32
  MCHP_GPIO_CTRL_AOD_MASK :: u32
  MCHP_GPIO_CTRL_AOD_DIS :: u32
  MCHP_GPIO_CTRL_IDET_MASK :: u32
  MCHP_GPIO_CTRL_IDET_DISABLE :: u32
  MCHP_GPIO_CTRL_IDET_LVL_HI :: u32
  MCHP_GPIO_CTRL_IDET_LVL_LO :: u32
  MCHP_GPIO_CTRL_IDET_FEDGE :: u32
  MCHP_GPIO_CTRL_IDET_REDGE :: u32
  MCHP_GPIO_CTRL_IDET_BEDGE :: u32

text \<open>
  \<open>enum gpio_int_mode\<close> and \<open>enum gpio_int_trig\<close>. A C enum parameter can hold any
  integer, and the driver has a branch for a trigger that is none of its enumerators;
  the last constructor of each type stands for such a value.
\<close>

datatype gpio_int_mode =
  GPIO_INT_MODE_DISABLED | GPIO_INT_MODE_LEVEL | GPIO_INT_MODE_EDGE | GPIO_INT_MODE_other nat

datatype gpio_int_trig =
  GPIO_INT_TRIG_LOW | GPIO_INT_TRIG_HIGH | GPIO_INT_TRIG_BOTH | GPIO_INT_TRIG_other nat

text \<open>The error codes the driver returns negated; \<open>return 0\<close> is \<open>Inr ()\<close>.\<close>

datatype errno = EINVAL | ENOTSUP

subsection \<open>Driver structures\<close>

text \<open>
  \<open>struct gpio_xec_config\<close>. \<open>valid_ctrl_mask\<close> is the entry
  \<open>valid_ctrl_masks[config->port_num]\<close> of the table of port bitmaps, whose
  entries are macros of the SoC header; \<open>pcr1_base\<close> and \<open>girq_id\<close> select the
  registers of the port, which are the registers of the state below.
\<close>

record gpio_xec_config =
  port_num :: nat
  girq_id :: nat
  valid_ctrl_mask :: u32
  config_flags :: u32

text \<open>\<open>struct gpio_callback\<close>: the handler is named by a number.\<close>

record gpio_callback =
  handler :: nat
  pin_mask :: u32

text \<open>\<open>struct gpio_xec_data\<close>: the singly linked list of callbacks.\<close>

record gpio_xec_data =
  callbacks :: "gpio_callback list"

subsection \<open>Registers and the trace of accesses\<close>

datatype reg =
  PCR1 nat
  | GPIO_PAROUT
  | GPIO_PARIN
  | GIRQ_ENSET
  | GIRQ_ENCLR
  | GIRQ_SRC
  | GIRQ_RESULT

datatype event =
  Read reg u32
  | Write reg u32
  | DMB
  | Call nat u32

record xec_port =
  pcr1_regs :: "nat \<Rightarrow> u32"
  parout :: u32
  parin :: u32
  girq_enable :: u32
  girq_source :: u32
  trace :: "event list"

text \<open>
  Modelled from the spec: what the hardware does with a register access is not in the
  driver. A control word and the port output register hold what was last written; the port
  input register is read-only; the aggregator has enable-set and enable-clear registers
  (a written 1 sets, respectively clears, the pin's enable bit), a source register that
  is write-1-to-clear, and a read-only result register that is source AND enable.
\<close>

fun peek :: "reg \<Rightarrow> xec_port \<Rightarrow> u32" where
  "peek (PCR1 n) s = pcr1_regs s n"
| "peek GPIO_PAROUT s = parout s"
| "peek GPIO_PARIN s = parin s"
| "peek GIRQ_ENSET s = girq_enable s"
| "peek GIRQ_ENCLR s = girq_enable s"
| "peek GIRQ_SRC s = girq_source s"
| "peek GIRQ_RESULT s = girq_source s AND girq_enable s"

fun poke :: "reg \<Rightarrow> u32 \<Rightarrow> xec_port \<Rightarrow> xec_port" where
  "poke (PCR1 n) v s = s\<lparr>pcr1_regs := (pcr1_regs s)(n := v)\<rparr>"
| "poke GPIO_PAROUT v s = s\<lparr>parout := v\<rparr>"
| "poke GPIO_PARIN v s = s"
| "poke GIRQ_ENSET v s = s\<lparr>girq_enable := girq_enable s OR v\<rparr>"
| "poke GIRQ_ENCLR v s = s\<lparr>girq_enable := girq_enable s AND NOT v\<rparr>"
| "poke GIRQ_SRC v s = s\<lparr>girq_source := girq_source s AND NOT v\<rparr>"
| "poke GIRQ_RESULT v s = s"

definition log :: "event \<Rightarrow> xec_port \<Rightarrow> xec_port" where
  "log e s = s\<lparr>trace := trace s @ [e]\<rparr>"

text \<open>A volatile read \<open>*r\<close> and a volatile write \<open>*r = v\<close>.\<close>

definition reg_read :: "reg \<Rightarrow> xec_port \<Rightarrow> u32 \<times> xec_port" where
  "reg_read r s = (peek r s, log (Read r (peek r s)) s)"

definition reg_write :: "reg \<Rightarrow> u32 \<Rightarrow> xec_port \<Rightarrow> xec_port" where
  "reg_write r v s = log (Write r v) (poke r v s)"

text \<open>\<open>__DMB()\<close>.\<close>

definition dmb :: "xec_port \<Rightarrow> xec_port" where
  "dmb s = log DMB s"

subsection \<open>Port bulk operations\<close>

definition gpio_xec_port_set_masked_raw ::
    "u32 \<Rightarrow> u32 \<Rightarrow> xec_port \<Rightarrow> (errno + unit) \<times> xec_port" where
  "gpio_xec_port_set_masked_raw msk val s =
     (let (cur, s1) = reg_read GPIO_PAROUT s
      in (Inr (), reg_write GPIO_PAROUT ((cur AND NOT msk) OR (msk AND val)) s1))"

definition gpio_xec_port_set_bits_raw :: "u32 \<Rightarrow> xec_port \<Rightarrow> (errno + unit) \<times> xec_port" where
  "gpio_xec_port_set_bits_raw msk s =
     (let (cur, s1) = reg_read GPIO_PAROUT s
      in (Inr (), reg_write GPIO_PAROUT (cur OR msk) s1))"

definition gpio_xec_port_clear_bits_raw :: "u32 \<Rightarrow> xec_port \<Rightarrow> (errno + unit) \<times> xec_port" where
  "gpio_xec_port_clear_bits_raw msk s =
     (let (cur, s1) = reg_read GPIO_PAROUT s
      in (Inr (), reg_write GPIO_PAROUT (cur AND NOT msk) s1))"

definition gpio_xec_port_toggle_bits :: "u32 \<Rightarrow> xec_port \<Rightarrow> (errno + unit) \<times> xec_port" where
  "gpio_xec_port_toggle_bits msk s =
     (let (cur, s1) = reg_read GPIO_PAROUT s
      in (Inr (), reg_write GPIO_PAROUT (cur XOR msk) s1))"

definition gpio_xec_port_get_raw :: "xec_port \<Rightarrow> ((errno + unit) \<times> u32) \<times> xec_port" where
  "gpio_xec_port_get_raw s =
     (let (v, s1) = reg_read GPIO_PARIN s in ((Inr (), v), s1))"

subsection \<open>Pin configuration\<close>

text \<open>
  The field mask and the field values that \<open>gpio_xec_configure\<close> collects in
  its locals \<open>mask\<close> and \<open>pcr1\<close> (both start at 0) before its first write of the
  control word.
\<close>

definition configure_mask :: "mchp_gpio_ctrl \<Rightarrow> u32" where
  "configure_mask C =
     0 OR MCHP_GPIO_CTRL_DIR_MASK C OR MCHP_GPIO_CTRL_INPAD_DIS_MASK C
       OR MCHP_GPIO_CTRL_PWRG_MASK C OR MCHP_GPIO_CTRL_PUD_MASK C
       OR MCHP_GPIO_CTRL_BUFT_MASK C OR MCHP_GPIO_CTRL_AOD_MASK C"

definition configure_pcr1 :: "gpio_flag_bits \<Rightarrow> mchp_gpio_ctrl \<Rightarrow> u32 \<Rightarrow> u32" where
  "configure_pcr1 F C flags =
     0 OR MCHP_GPIO_CTRL_DIR_INPUT C
       OR (if flags AND GPIO_PULL_UP F \<noteq> 0 then MCHP_GPIO_CTRL_PUD_PU C
           else if flags AND GPIO_PULL_DOWN F \<noteq> 0 then MCHP_GPIO_CTRL_PUD_PD C
           else 0)
       OR (if flags AND GPIO_OPEN_DRAIN F \<noteq> 0 then MCHP_GPIO_CTRL_BUFT_OPENDRAIN C
           else MCHP_GPIO_CTRL_BUFT_PUSHPULL C)
       OR MCHP_GPIO_CTRL_AOD_DIS C
       OR (if flags = GPIO_DISCONNECTED F then MCHP_GPIO_CTRL_PWRG_OFF C else 0)"

text \<open>The preload of the pin's bit of the port output register, for an output pin.\<close>

definition preload_output :: "gpio_flag_bits \<Rightarrow> nat \<Rightarrow> u32 \<Rightarrow> xec_port \<Rightarrow> xec_port" where
  "preload_output F pin flags s =
     (if flags AND GPIO_OUTPUT_INIT_HIGH F \<noteq> 0 then
        (let (out, s1) = reg_read GPIO_PAROUT s in reg_write GPIO_PAROUT (out OR BIT pin) s1)
      else if flags AND GPIO_OUTPUT_INIT_LOW F \<noteq> 0 then
        (let (out, s1) = reg_read GPIO_PAROUT s
         in reg_write GPIO_PAROUT (out AND NOT (BIT pin)) s1)
      else s)"

text \<open>
  The driver's test for the "open source" mode, which it does not support:
  \<open>(flags & GPIO_SINGLE_ENDED) != 0 && (flags & GPIO_LINE_OPEN_DRAIN) == 0\<close>.
\<close>

definition open_source_mode :: "gpio_flag_bits \<Rightarrow> u32 \<Rightarrow> bool" where
  "open_source_mode F flags =
     (flags AND GPIO_SINGLE_ENDED F \<noteq> 0 \<and> flags AND GPIO_LINE_OPEN_DRAIN F = 0)"

definition gpio_xec_configure ::
    "gpio_flag_bits \<Rightarrow> mchp_gpio_ctrl \<Rightarrow> gpio_xec_config \<Rightarrow> nat \<Rightarrow> u32 \<Rightarrow> xec_port
       \<Rightarrow> (errno + unit) \<times> xec_port" where
  "gpio_xec_configure F C config pin flags s =
     (if valid_ctrl_mask config AND BIT pin = 0 then (Inl EINVAL, s)
      else if open_source_mode F flags then (Inl ENOTSUP, s)
      else
        let msk = configure_mask C;
            pcr1 = configure_pcr1 F C flags;
            (cur, s1) = reg_read (PCR1 pin) s;
            s2 = reg_write (PCR1 pin) ((cur AND NOT msk) OR pcr1) s1
        in if flags AND GPIO_OUTPUT F \<noteq> 0 then
             let s3 = preload_output F pin flags s2;
                 (cur2, s4) = reg_read (PCR1 pin) s3
             in (Inr (),
                 reg_write (PCR1 pin)
                   ((cur2 AND NOT (MCHP_GPIO_CTRL_DIR_MASK C)) OR MCHP_GPIO_CTRL_DIR_OUTPUT C) s4)
           else (Inr (), s2))"

subsection \<open>Interrupt configuration\<close>

text \<open>
  The detection encoding the driver computes from \<open>mode\<close> and \<open>trig\<close>;
  \<open>None\<close> is the \<open>default\<close> label of the switch over the edge triggers, which
  returns \<open>-EINVAL\<close>.
\<close>

fun edge_detection :: "mchp_gpio_ctrl \<Rightarrow> gpio_int_trig \<Rightarrow> u32 option" where
  "edge_detection C GPIO_INT_TRIG_LOW = Some (MCHP_GPIO_CTRL_IDET_FEDGE C)"
| "edge_detection C GPIO_INT_TRIG_HIGH = Some (MCHP_GPIO_CTRL_IDET_REDGE C)"
| "edge_detection C GPIO_INT_TRIG_BOTH = Some (MCHP_GPIO_CTRL_IDET_BEDGE C)"
| "edge_detection C (GPIO_INT_TRIG_other n) = None"

definition detection :: "mchp_gpio_ctrl \<Rightarrow> gpio_int_mode \<Rightarrow> gpio_int_trig \<Rightarrow> u32 option" where
  "detection C mode trig =
     (if mode = GPIO_INT_MODE_DISABLED then Some (MCHP_GPIO_CTRL_IDET_DISABLE C)
      else if mode = GPIO_INT_MODE_LEVEL then
        Some (if trig = GPIO_INT_TRIG_HIGH then MCHP_GPIO_CTRL_IDET_LVL_HI C
              else MCHP_GPIO_CTRL_IDET_LVL_LO C)
      else edge_detection C trig)"

text \<open>
  Modelled from the spec: the macro \<open>MCHP_GIRQ_SRC_CLR(girq_id, pin)\<close> is not among
  the sources; it clears the pin's pending bit in the aggregator's source register, which
  is write-1-to-clear.
\<close>

definition MCHP_GIRQ_SRC_CLR :: "nat \<Rightarrow> xec_port \<Rightarrow> xec_port" where
  "MCHP_GIRQ_SRC_CLR pin s = reg_write GIRQ_SRC (BIT pin) s"

definition gpio_xec_pin_interrupt_configure ::
    "gpio_flag_bits \<Rightarrow> mchp_gpio_ctrl \<Rightarrow> gpio_xec_config \<Rightarrow> nat \<Rightarrow> gpio_int_mode
       \<Rightarrow> gpio_int_trig \<Rightarrow> xec_port \<Rightarrow> (errno + unit) \<times> xec_port" where
  "gpio_xec_pin_interrupt_configure F C config pin mode trig s =
     (if valid_ctrl_mask config AND BIT pin = 0 then (Inl EINVAL, s)
      else if mode \<noteq> GPIO_INT_MODE_DISABLED \<and> config_flags config AND GPIO_INT_ENABLE F = 0
        then (Inl ENOTSUP, s)
      else
        let s1 = reg_write GIRQ_ENCLR (BIT pin) s;
            msk = 0 OR MCHP_GPIO_CTRL_IDET_MASK C
        in case detection C mode trig of
             None \<Rightarrow> (Inl EINVAL, s1)
           | Some idet \<Rightarrow>
               let pcr1 = 0 OR idet;
                   (cur, s2) = reg_read (PCR1 pin) s1;
                   s3 = reg_write (PCR1 pin) ((cur AND NOT msk) OR pcr1) s2;
                   s4 = dmb s3
               in if mode \<noteq> GPIO_INT_MODE_DISABLED then
                    (Inr (), reg_write GIRQ_ENSET (BIT pin) (MCHP_GIRQ_SRC_CLR pin s4))
                  else (Inr (), s4))"

subsection \<open>Interrupt dispatch\<close>

text \<open>
  Modelled from the spec: \<open>gpio_fire_callbacks\<close> is defined in gpio_utils.h, which is
  not among the sources. It walks the callback list and, for each entry whose interest mask
  intersects the pins it is given, invokes the entry's handler with the full pin value. A
  handler is the caller's code: its invocation is logged, its body is not modelled.
\<close>

fun gpio_fire_callbacks :: "gpio_callback list \<Rightarrow> u32 \<Rightarrow> xec_port \<Rightarrow> xec_port" where
  "gpio_fire_callbacks [] pins s = s"
| "gpio_fire_callbacks (cb # cbs) pins s =
     gpio_fire_callbacks cbs pins
       (if pin_mask cb AND pins \<noteq> 0 then log (Call (handler cb) pins) s else s)"

definition gpio_gpio_xec_port_isr :: "gpio_xec_data \<Rightarrow> xec_port \<Rightarrow> xec_port" where
  "gpio_gpio_xec_port_isr data s =
     (let (girq_result, s1) = reg_read GIRQ_RESULT s;
          s2 = reg_write GIRQ_SRC girq_result s1
      in gpio_fire_callbacks (callbacks data) girq_result s2)"

subsection \<open>The layout of the control word\<close>

text \<open>
  The control word is bit-packed into non-overlapping fields. \<open>fits v m\<close>: the
  field value \<open>v\<close> has no bit outside the field mask \<open>m\<close>; \<open>apart m m'\<close>: two field
  masks share no bit.
\<close>

definition fits :: "u32 \<Rightarrow> u32 \<Rightarrow> bool" where
  "fits v m = (v AND m = v)"

definition apart :: "u32 \<Rightarrow> u32 \<Rightarrow> bool" where
  "apart m m' = (m AND m' = 0)"

definition ctrl_values_ok :: "mchp_gpio_ctrl \<Rightarrow> bool" where
  "ctrl_values_ok C =
    (fits (MCHP_GPIO_CTRL_DIR_INPUT C) (MCHP_GPIO_CTRL_DIR_MASK C)
     \<and> fits (MCHP_GPIO_CTRL_DIR_OUTPUT C) (MCHP_GPIO_CTRL_DIR_MASK C)
     \<and> fits (MCHP_GPIO_CTRL_PWRG_OFF C) (MCHP_GPIO_CTRL_PWRG_MASK C)
     \<and> fits (MCHP_GPIO_CTRL_PUD_PU C) (MCHP_GPIO_CTRL_PUD_MASK C)
     \<and> fits (MCHP_GPIO_CTRL_PUD_PD C) (MCHP_GPIO_CTRL_PUD_MASK C)
     \<and> fits (MCHP_GPIO_CTRL_BUFT_OPENDRAIN C) (MCHP_GPIO_CTRL_BUFT_MASK C)
     \<and> fits (MCHP_GPIO_CTRL_BUFT_PUSHPULL C) (MCHP_GPIO_CTRL_BUFT_MASK C)
     \<and> fits (MCHP_GPIO_CTRL_AOD_DIS C) (MCHP_GPIO_CTRL_AOD_MASK C)
     \<and> fits (MCHP_GPIO_CTRL_IDET_DISABLE C) (MCHP_GPIO_CTRL_IDET_MASK C)
     \<and> fits (MCHP_GPIO_CTRL_IDET_LVL_HI C) (MCHP_GPIO_CTRL_IDET_MASK C)
     \<and> fits (MCHP_GPIO_CTRL_IDET_LVL_LO C) (MCHP_GPIO_CTRL_IDET_MASK C)
     \<and> fits (MCHP_GPIO_CTRL_IDET_FEDGE C) (MCHP_GPIO_CTRL_IDET_MASK C)
     \<and> fits (MCHP_GPIO_CTRL_IDET_REDGE C) (MCHP_GPIO_CTRL_IDET_MASK C)
     \<and> fits (MCHP_GPIO_CTRL_IDET_BEDGE C) (MCHP_GPIO_CTRL_IDET_MASK C))"

fun all_apart :: "u32 list \<Rightarrow> bool" where
  "all_apart [] = True"
| "all_apart (m # ms) = (list_all (apart m) ms \<and> all_apart ms)"

definition ctrl_masks :: "mchp_gpio_ctrl \<Rightarrow> u32 list" where
  "ctrl_masks C =
     [MCHP_GPIO_CTRL_DIR_MASK C, MCHP_GPIO_CTRL_INPAD_DIS_MASK C, MCHP_GPIO_CTRL_PWRG_MASK C,
      MCHP_GPIO_CTRL_PUD_MASK C, MCHP_GPIO_CTRL_BUFT_MASK C, MCHP_GPIO_CTRL_AOD_MASK C,
      MCHP_GPIO_CTRL_IDET_MASK C]"

definition ctrl_layout_ok :: "mchp_gpio_ctrl \<Rightarrow> bool" where
  "ctrl_layout_ok C = (ctrl_values_ok C \<and> all_apart (ctrl_masks C))"

subsection \<open>A concrete port\<close>

text \<open>
  One choice of the header constants, of a port description and of a register state, on
  which the driver is evaluated below: pull select in bits 0-1 of the control word, power
  gate in bits 2-3, interrupt detection in bits 4-7, buffer type in bit 8, direction in bit
  9, alternate output disable in bit 10, input pad disable in bit 15; a port whose pins 1,
  5, 6 and 31 do not exist; all registers 0 and nothing logged yet.
\<close>

definition ex_flags :: gpio_flag_bits where
  "ex_flags =
     \<lparr>GPIO_SINGLE_ENDED = 0x2, GPIO_LINE_OPEN_DRAIN = 0x4, GPIO_OPEN_DRAIN = 0x6,
      GPIO_PULL_UP = 0x10, GPIO_PULL_DOWN = 0x20, GPIO_OUTPUT = 0x200,
      GPIO_OUTPUT_INIT_HIGH = 0x800, GPIO_OUTPUT_INIT_LOW = 0x400,
      GPIO_DISCONNECTED = 0, GPIO_INT_ENABLE = 0x4000\<rparr>"

definition ex_ctrl :: mchp_gpio_ctrl where
  "ex_ctrl =
     \<lparr>MCHP_GPIO_CTRL_DIR_MASK = 0x200, MCHP_GPIO_CTRL_DIR_INPUT = 0,
      MCHP_GPIO_CTRL_DIR_OUTPUT = 0x200, MCHP_GPIO_CTRL_INPAD_DIS_MASK = 0x8000,
      MCHP_GPIO_CTRL_PWRG_MASK = 0xC, MCHP_GPIO_CTRL_PWRG_OFF = 0x8,
      MCHP_GPIO_CTRL_PUD_MASK = 0x3, MCHP_GPIO_CTRL_PUD_PU = 0x1,
      MCHP_GPIO_CTRL_PUD_PD = 0x2, MCHP_GPIO_CTRL_BUFT_MASK = 0x100,
      MCHP_GPIO_CTRL_BUFT_OPENDRAIN = 0x100, MCHP_GPIO_CTRL_BUFT_PUSHPULL = 0,
      MCHP_GPIO_CTRL_AOD_MASK = 0x400, MCHP_GPIO_CTRL_AOD_DIS = 0x400,
      MCHP_GPIO_CTRL_IDET_MASK = 0xF0, MCHP_GPIO_CTRL_IDET_DISABLE = 0x40,
      MCHP_GPIO_CTRL_IDET_LVL_HI = 0x10, MCHP_GPIO_CTRL_IDET_LVL_LO = 0,
      MCHP_GPIO_CTRL_IDET_FEDGE = 0xE0, MCHP_GPIO_CTRL_IDET_REDGE = 0xD0,
      MCHP_GPIO_CTRL_IDET_BEDGE = 0xF0\<rparr>"

definition ex_config :: gpio_xec_config where
  "ex_config =
     \<lparr>port_num = 0, girq_id = 11, valid_ctrl_mask = 0x7FFFFF9D, config_flags = 0x4000\<rparr>"

definition ex_port :: xec_port where
  "ex_port =
     \<lparr>pcr1_regs = (\<lambda>n. 0), parout = 0, parin = 0, girq_enable = 0, girq_source = 0,
      trace = []\<rparr>"

section \<open>Properties\<close>

subsection \<open>Bitwise facts\<close>

lemma and_BIT_eq_0_iff: "(w AND BIT n = 0) = (\<not> bit w n)"
  unfolding BIT_def by (metis and_exp_eq_0_iff_not_bit push_bit_of_1)

lemma fits_apart: "fits v m \<Longrightarrow> apart m m' \<Longrightarrow> v AND m' = 0"
  unfolding fits_def apart_def by (metis and.assoc and_zero_eq)

lemma fits_apart': "fits v m \<Longrightarrow> apart m' m \<Longrightarrow> v AND m' = 0"
  using fits_apart [of v m m'] by (simp add: apart_def and.commute)

lemma fits_refl: "fits m m"
  by (simp add: fits_def)

lemma fits_orI1: "fits m a \<Longrightarrow> fits m (a OR b)"
  unfolding fits_def by (auto simp: bit_eq_iff bit_simps)

lemma fits_orI2: "fits m b \<Longrightarrow> fits m (a OR b)"
  unfolding fits_def by (auto simp: bit_eq_iff bit_simps)

text \<open>A masked read-modify-write sets a field inside the mask to the new value's field.\<close>

lemma rmw_field: "fits m M \<Longrightarrow> ((old AND NOT M) OR p) AND m = p AND m"
  unfolding fits_def by (auto simp: bit_eq_iff bit_simps)

text \<open>It keeps a field that neither the mask nor the new value touches.\<close>

lemma rmw_keep: "apart M m \<Longrightarrow> p AND m = 0 \<Longrightarrow> ((old AND NOT M) OR p) AND m = old AND m"
  unfolding apart_def by (auto simp: bit_eq_iff bit_simps)

subsection \<open>Fields of the control word\<close>

lemma fits_configure_mask:
  "fits (MCHP_GPIO_CTRL_DIR_MASK C) (configure_mask C)"
  "fits (MCHP_GPIO_CTRL_PWRG_MASK C) (configure_mask C)"
  "fits (MCHP_GPIO_CTRL_PUD_MASK C) (configure_mask C)"
  "fits (MCHP_GPIO_CTRL_AOD_MASK C) (configure_mask C)"
  unfolding configure_mask_def by (fast intro: fits_refl fits_orI1 fits_orI2)+

lemma layout_own:
  assumes "ctrl_layout_ok C"
  shows "MCHP_GPIO_CTRL_DIR_INPUT C AND MCHP_GPIO_CTRL_DIR_MASK C = MCHP_GPIO_CTRL_DIR_INPUT C"
    and "MCHP_GPIO_CTRL_DIR_OUTPUT C AND MCHP_GPIO_CTRL_DIR_MASK C = MCHP_GPIO_CTRL_DIR_OUTPUT C"
    and "MCHP_GPIO_CTRL_AOD_DIS C AND MCHP_GPIO_CTRL_AOD_MASK C = MCHP_GPIO_CTRL_AOD_DIS C"
    and "MCHP_GPIO_CTRL_PWRG_OFF C AND MCHP_GPIO_CTRL_PWRG_MASK C = MCHP_GPIO_CTRL_PWRG_OFF C"
    and "MCHP_GPIO_CTRL_PUD_PU C AND MCHP_GPIO_CTRL_PUD_MASK C = MCHP_GPIO_CTRL_PUD_PU C"
    and "MCHP_GPIO_CTRL_PUD_PD C AND MCHP_GPIO_CTRL_PUD_MASK C = MCHP_GPIO_CTRL_PUD_PD C"
  using assms by (simp_all add: ctrl_layout_ok_def ctrl_values_ok_def fits_def)

lemma layout_facts:
  assumes "ctrl_layout_ok C"
  shows "ctrl_values_ok C" and "all_apart (ctrl_masks C)"
  using assms by (simp_all add: ctrl_layout_ok_def)

lemma layout_cross_DIR:
  assumes "ctrl_layout_ok C"
  shows "MCHP_GPIO_CTRL_PUD_PU C AND MCHP_GPIO_CTRL_DIR_MASK C = 0"
    and "MCHP_GPIO_CTRL_PUD_PD C AND MCHP_GPIO_CTRL_DIR_MASK C = 0"
    and "MCHP_GPIO_CTRL_BUFT_OPENDRAIN C AND MCHP_GPIO_CTRL_DIR_MASK C = 0"
    and "MCHP_GPIO_CTRL_BUFT_PUSHPULL C AND MCHP_GPIO_CTRL_DIR_MASK C = 0"
    and "MCHP_GPIO_CTRL_AOD_DIS C AND MCHP_GPIO_CTRL_DIR_MASK C = 0"
    and "MCHP_GPIO_CTRL_PWRG_OFF C AND MCHP_GPIO_CTRL_DIR_MASK C = 0"
  using layout_facts(1) [OF assms, unfolded ctrl_values_ok_def]
    layout_facts(2) [OF assms, unfolded ctrl_masks_def, simplified]
  by (blast intro: fits_apart fits_apart')+

lemma layout_cross_AOD:
  assumes "ctrl_layout_ok C"
  shows "MCHP_GPIO_CTRL_PUD_PU C AND MCHP_GPIO_CTRL_AOD_MASK C = 0"
    and "MCHP_GPIO_CTRL_PUD_PD C AND MCHP_GPIO_CTRL_AOD_MASK C = 0"
    and "MCHP_GPIO_CTRL_BUFT_OPENDRAIN C AND MCHP_GPIO_CTRL_AOD_MASK C = 0"
    and "MCHP_GPIO_CTRL_BUFT_PUSHPULL C AND MCHP_GPIO_CTRL_AOD_MASK C = 0"
    and "MCHP_GPIO_CTRL_DIR_INPUT C AND MCHP_GPIO_CTRL_AOD_MASK C = 0"
    and "MCHP_GPIO_CTRL_DIR_OUTPUT C AND MCHP_GPIO_CTRL_AOD_MASK C = 0"
    and "MCHP_GPIO_CTRL_PWRG_OFF C AND MCHP_GPIO_CTRL_AOD_MASK C = 0"
  using layout_facts(1) [OF assms, unfolded ctrl_values_ok_def]
    layout_facts(2) [OF assms, unfolded ctrl_masks_def, simplified]
  by (blast intro: fits_apart fits_apart')+

lemma layout_cross_PWRG:
  assumes "ctrl_layout_ok C"
  shows "MCHP_GPIO_CTRL_PUD_PU C AND MCHP_GPIO_CTRL_PWRG_MASK C = 0"
    and "MCHP_GPIO_CTRL_PUD_PD C AND MCHP_GPIO_CTRL_PWRG_MASK C = 0"
    and "MCHP_GPIO_CTRL_BUFT_OPENDRAIN C AND MCHP_GPIO_CTRL_PWRG_MASK C = 0"
    and "MCHP_GPIO_CTRL_BUFT_PUSHPULL C AND MCHP_GPIO_CTRL_PWRG_MASK C = 0"
    and "MCHP_GPIO_CTRL_DIR_INPUT C AND MCHP_GPIO_CTRL_PWRG_MASK C = 0"
    and "MCHP_GPIO_CTRL_DIR_OUTPUT C AND MCHP_GPIO_CTRL_PWRG_MASK C = 0"
    and "MCHP_GPIO_CTRL_AOD_DIS C AND MCHP_GPIO_CTRL_PWRG_MASK C = 0"
  using layout_facts(1) [OF assms, unfolded ctrl_values_ok_def]
    layout_facts(2) [OF assms, unfolded ctrl_masks_def, simplified]
  by (blast intro: fits_apart fits_apart')+

lemma layout_cross_PUD:
  assumes "ctrl_layout_ok C"
  shows "MCHP_GPIO_CTRL_PWRG_OFF C AND MCHP_GPIO_CTRL_PUD_MASK C = 0"
    and "MCHP_GPIO_CTRL_BUFT_OPENDRAIN C AND MCHP_GPIO_CTRL_PUD_MASK C = 0"
    and "MCHP_GPIO_CTRL_BUFT_PUSHPULL C AND MCHP_GPIO_CTRL_PUD_MASK C = 0"
    and "MCHP_GPIO_CTRL_DIR_INPUT C AND MCHP_GPIO_CTRL_PUD_MASK C = 0"
    and "MCHP_GPIO_CTRL_DIR_OUTPUT C AND MCHP_GPIO_CTRL_PUD_MASK C = 0"
    and "MCHP_GPIO_CTRL_AOD_DIS C AND MCHP_GPIO_CTRL_PUD_MASK C = 0"
  using layout_facts(1) [OF assms, unfolded ctrl_values_ok_def]
    layout_facts(2) [OF assms, unfolded ctrl_masks_def, simplified]
  by (blast intro: fits_apart fits_apart')+

text \<open>
  The fields of the value that the first write of \<open>gpio_xec_configure\<close> puts into
  the control word.
\<close>

lemma configure_pcr1_fields:
  assumes "ctrl_layout_ok C"
  shows "configure_pcr1 F C flags AND MCHP_GPIO_CTRL_DIR_MASK C = MCHP_GPIO_CTRL_DIR_INPUT C"
    and "configure_pcr1 F C flags AND MCHP_GPIO_CTRL_AOD_MASK C = MCHP_GPIO_CTRL_AOD_DIS C"
    and "configure_pcr1 F C flags AND MCHP_GPIO_CTRL_PWRG_MASK C =
           (if flags = GPIO_DISCONNECTED F then MCHP_GPIO_CTRL_PWRG_OFF C else 0)"
    and "configure_pcr1 F C flags AND MCHP_GPIO_CTRL_PUD_MASK C =
           (if flags AND GPIO_PULL_UP F \<noteq> 0 then MCHP_GPIO_CTRL_PUD_PU C
            else if flags AND GPIO_PULL_DOWN F \<noteq> 0 then MCHP_GPIO_CTRL_PUD_PD C
            else 0)"
  by (simp_all add: configure_pcr1_def bit.conj_disj_distrib2 layout_own [OF assms]
        layout_cross_DIR [OF assms] layout_cross_AOD [OF assms] layout_cross_PWRG [OF assms]
        layout_cross_PUD [OF assms])

text \<open>The concrete layout is one.\<close>

lemma ex_ctrl_ok: "ctrl_layout_ok ex_ctrl"
  by (simp add: ctrl_layout_ok_def ctrl_values_ok_def ctrl_masks_def ex_ctrl_def fits_def apart_def)

subsection \<open>The register state and the trace\<close>

lemma trace_log [simp]: "trace (log e s) = trace s @ [e]"
  by (simp add: log_def)

lemma regs_log [simp]:
  "pcr1_regs (log e s) = pcr1_regs s" "parout (log e s) = parout s" "parin (log e s) = parin s"
  "girq_enable (log e s) = girq_enable s" "girq_source (log e s) = girq_source s"
  by (simp_all add: log_def)

text \<open>
  What an accepted call of \<open>gpio_xec_configure\<close> returns, the accesses it makes, in
  order, and the control word it leaves.
\<close>

lemma configure_accepted:
  assumes "bit (valid_ctrl_mask config) pin"
    and "\<not> open_source_mode F flags"
  shows "fst (gpio_xec_configure F C config pin flags s) = Inr ()"
    and "flags AND GPIO_OUTPUT F = 0 \<Longrightarrow>
      trace (snd (gpio_xec_configure F C config pin flags s)) =
        trace s @ [Read (PCR1 pin) (pcr1_regs s pin),
          Write (PCR1 pin) ((pcr1_regs s pin AND NOT (configure_mask C)) OR configure_pcr1 F C flags)]"
    and "flags AND GPIO_OUTPUT F \<noteq> 0 \<Longrightarrow>
      trace (snd (gpio_xec_configure F C config pin flags s)) =
        trace s @ [Read (PCR1 pin) (pcr1_regs s pin),
          Write (PCR1 pin) ((pcr1_regs s pin AND NOT (configure_mask C)) OR configure_pcr1 F C flags)]
        @ (if flags AND GPIO_OUTPUT_INIT_HIGH F \<noteq> 0
           then [Read GPIO_PAROUT (parout s), Write GPIO_PAROUT (parout s OR BIT pin)]
           else if flags AND GPIO_OUTPUT_INIT_LOW F \<noteq> 0
           then [Read GPIO_PAROUT (parout s), Write GPIO_PAROUT (parout s AND NOT (BIT pin))]
           else [])
        @ [Read (PCR1 pin) ((pcr1_regs s pin AND NOT (configure_mask C)) OR configure_pcr1 F C flags),
           Write (PCR1 pin)
             ((((pcr1_regs s pin AND NOT (configure_mask C)) OR configure_pcr1 F C flags)
                AND NOT (MCHP_GPIO_CTRL_DIR_MASK C)) OR MCHP_GPIO_CTRL_DIR_OUTPUT C)]"
    and "pcr1_regs (snd (gpio_xec_configure F C config pin flags s)) pin =
        (if flags AND GPIO_OUTPUT F \<noteq> 0
         then (((pcr1_regs s pin AND NOT (configure_mask C)) OR configure_pcr1 F C flags)
                AND NOT (MCHP_GPIO_CTRL_DIR_MASK C)) OR MCHP_GPIO_CTRL_DIR_OUTPUT C
         else (pcr1_regs s pin AND NOT (configure_mask C)) OR configure_pcr1 F C flags)"
  using assms
  by (simp_all add: gpio_xec_configure_def and_BIT_eq_0_iff reg_read_def reg_write_def
        preload_output_def Let_def)

text \<open>The fields of the control word after the first and after the second write.\<close>

lemma first_write_fields:
  assumes "ctrl_layout_ok C"
  shows "((old AND NOT (configure_mask C)) OR configure_pcr1 F C flags)
           AND MCHP_GPIO_CTRL_DIR_MASK C = MCHP_GPIO_CTRL_DIR_INPUT C"
    and "((old AND NOT (configure_mask C)) OR configure_pcr1 F C flags)
           AND MCHP_GPIO_CTRL_AOD_MASK C = MCHP_GPIO_CTRL_AOD_DIS C"
    and "((old AND NOT (configure_mask C)) OR configure_pcr1 F C flags)
           AND MCHP_GPIO_CTRL_PWRG_MASK C =
           (if flags = GPIO_DISCONNECTED F then MCHP_GPIO_CTRL_PWRG_OFF C else 0)"
    and "((old AND NOT (configure_mask C)) OR configure_pcr1 F C flags)
           AND MCHP_GPIO_CTRL_PUD_MASK C =
           (if flags AND GPIO_PULL_UP F \<noteq> 0 then MCHP_GPIO_CTRL_PUD_PU C
            else if flags AND GPIO_PULL_DOWN F \<noteq> 0 then MCHP_GPIO_CTRL_PUD_PD C
            else 0)"
  by (simp_all only: rmw_field [OF fits_configure_mask(1)] rmw_field [OF fits_configure_mask(2)]
        rmw_field [OF fits_configure_mask(3)] rmw_field [OF fits_configure_mask(4)]
        configure_pcr1_fields [OF assms])

lemma layout_apart_DIR:
  assumes "ctrl_layout_ok C"
  shows "apart (MCHP_GPIO_CTRL_DIR_MASK C) (MCHP_GPIO_CTRL_AOD_MASK C)"
    and "apart (MCHP_GPIO_CTRL_DIR_MASK C) (MCHP_GPIO_CTRL_PWRG_MASK C)"
    and "apart (MCHP_GPIO_CTRL_DIR_MASK C) (MCHP_GPIO_CTRL_PUD_MASK C)"
  using assms by (simp_all add: ctrl_layout_ok_def ctrl_masks_def)

lemma second_write_fields:
  assumes "ctrl_layout_ok C"
  shows "((w AND NOT (MCHP_GPIO_CTRL_DIR_MASK C)) OR MCHP_GPIO_CTRL_DIR_OUTPUT C)
           AND MCHP_GPIO_CTRL_DIR_MASK C = MCHP_GPIO_CTRL_DIR_OUTPUT C"
    and "((w AND NOT (MCHP_GPIO_CTRL_DIR_MASK C)) OR MCHP_GPIO_CTRL_DIR_OUTPUT C)
           AND MCHP_GPIO_CTRL_AOD_MASK C = w AND MCHP_GPIO_CTRL_AOD_MASK C"
    and "((w AND NOT (MCHP_GPIO_CTRL_DIR_MASK C)) OR MCHP_GPIO_CTRL_DIR_OUTPUT C)
           AND MCHP_GPIO_CTRL_PWRG_MASK C = w AND MCHP_GPIO_CTRL_PWRG_MASK C"
    and "((w AND NOT (MCHP_GPIO_CTRL_DIR_MASK C)) OR MCHP_GPIO_CTRL_DIR_OUTPUT C)
           AND MCHP_GPIO_CTRL_PUD_MASK C = w AND MCHP_GPIO_CTRL_PUD_MASK C"
  by (simp_all add: rmw_field [OF fits_refl] layout_own [OF assms]
        rmw_keep [OF layout_apart_DIR(1) [OF assms] layout_cross_AOD(6) [OF assms]]
        rmw_keep [OF layout_apart_DIR(2) [OF assms] layout_cross_PWRG(6) [OF assms]]
        rmw_keep [OF layout_apart_DIR(3) [OF assms] layout_cross_PUD(5) [OF assms]])

text \<open>Pin 3 of the concrete port exists, pin 1 does not.\<close>

lemma ex_pin_3_valid: "bit (valid_ctrl_mask ex_config) 3"
  using and_BIT_eq_0_iff [of "valid_ctrl_mask ex_config" 3]
  by (simp add: ex_config_def BIT_def)

lemma ex_pin_1_invalid: "\<not> bit (valid_ctrl_mask ex_config) 1"
  using and_BIT_eq_0_iff [of "valid_ctrl_mask ex_config" 1]
  by (simp add: ex_config_def BIT_def)

text \<open>A call that returns 0 passed both checks.\<close>

lemma configure_success:
  assumes "fst (gpio_xec_configure F C config pin flags s) = Inr ()"
  shows "bit (valid_ctrl_mask config) pin" and "\<not> open_source_mode F flags"
  using assms
  by (auto simp: gpio_xec_configure_def and_BIT_eq_0_iff split: if_splits)

subsection \<open>Pin configuration\<close>

text \<open>
  C1, as amended. For every valid pin and every flags set that contains OUTPUT and that
  \<open>gpio_xec_configure\<close> does not reject as the open-source mode, the call returns 0
  and its register accesses are, in this order: a read-modify-write of the pin's control
  word whose written value has direction = input and AOD = disabled; then, if
  OUTPUT_INIT_HIGH is set, a read-modify-write of the port output register that sets the
  pin's bit, else, if OUTPUT_INIT_LOW is set, one that clears it, else nothing; and last
  a second read-modify-write of the control word whose written value has direction =
  output (and AOD still disabled). The write that turns the direction to output is the
  last access, so it never precedes the write of the output register.
\<close>

theorem configure_output_order:
  assumes "ctrl_layout_ok C"
    and "bit (valid_ctrl_mask config) pin"
    and "\<not> open_source_mode F flags"
    and "flags AND GPIO_OUTPUT F \<noteq> 0"
  shows "\<exists>w1 w2.
      fst (gpio_xec_configure F C config pin flags s) = Inr ()
      \<and> trace (snd (gpio_xec_configure F C config pin flags s)) =
          trace s @ [Read (PCR1 pin) (pcr1_regs s pin), Write (PCR1 pin) w1]
          @ (if flags AND GPIO_OUTPUT_INIT_HIGH F \<noteq> 0
             then [Read GPIO_PAROUT (parout s), Write GPIO_PAROUT (parout s OR BIT pin)]
             else if flags AND GPIO_OUTPUT_INIT_LOW F \<noteq> 0
             then [Read GPIO_PAROUT (parout s), Write GPIO_PAROUT (parout s AND NOT (BIT pin))]
             else [])
          @ [Read (PCR1 pin) w1, Write (PCR1 pin) w2]
      \<and> w1 AND MCHP_GPIO_CTRL_DIR_MASK C = MCHP_GPIO_CTRL_DIR_INPUT C
      \<and> w1 AND MCHP_GPIO_CTRL_AOD_MASK C = MCHP_GPIO_CTRL_AOD_DIS C
      \<and> w2 AND MCHP_GPIO_CTRL_DIR_MASK C = MCHP_GPIO_CTRL_DIR_OUTPUT C
      \<and> w2 AND MCHP_GPIO_CTRL_AOD_MASK C = MCHP_GPIO_CTRL_AOD_DIS C"
proof (intro exI conjI)
  show "fst (gpio_xec_configure F C config pin flags s) = Inr ()"
    by (rule configure_accepted(1) [OF assms(2,3)])
  show "trace (snd (gpio_xec_configure F C config pin flags s)) =
          trace s @ [Read (PCR1 pin) (pcr1_regs s pin),
            Write (PCR1 pin)
              ((pcr1_regs s pin AND NOT (configure_mask C)) OR configure_pcr1 F C flags)]
          @ (if flags AND GPIO_OUTPUT_INIT_HIGH F \<noteq> 0
             then [Read GPIO_PAROUT (parout s), Write GPIO_PAROUT (parout s OR BIT pin)]
             else if flags AND GPIO_OUTPUT_INIT_LOW F \<noteq> 0
             then [Read GPIO_PAROUT (parout s), Write GPIO_PAROUT (parout s AND NOT (BIT pin))]
             else [])
          @ [Read (PCR1 pin)
               ((pcr1_regs s pin AND NOT (configure_mask C)) OR configure_pcr1 F C flags),
             Write (PCR1 pin)
               ((((pcr1_regs s pin AND NOT (configure_mask C)) OR configure_pcr1 F C flags)
                  AND NOT (MCHP_GPIO_CTRL_DIR_MASK C)) OR MCHP_GPIO_CTRL_DIR_OUTPUT C)]"
    by (rule configure_accepted(3) [OF assms(2,3,4)])
qed (simp_all only: first_write_fields [OF assms(1)] second_write_fields [OF assms(1)])

text \<open>
  The theorem at pin 3 of the concrete port, with flags OUTPUT and OUTPUT_INIT_HIGH, and
  the accesses that the call makes there.
\<close>

theorem configure_output_order_witness:
  "ctrl_layout_ok ex_ctrl
   \<and> bit (valid_ctrl_mask ex_config) 3
   \<and> \<not> open_source_mode ex_flags 0xA00
   \<and> 0xA00 AND GPIO_OUTPUT ex_flags \<noteq> 0
   \<and> (\<exists>w1 w2.
      fst (gpio_xec_configure ex_flags ex_ctrl ex_config 3 0xA00 ex_port) = Inr ()
      \<and> trace (snd (gpio_xec_configure ex_flags ex_ctrl ex_config 3 0xA00 ex_port)) =
          trace ex_port @ [Read (PCR1 3) (pcr1_regs ex_port 3), Write (PCR1 3) w1]
          @ (if 0xA00 AND GPIO_OUTPUT_INIT_HIGH ex_flags \<noteq> 0
             then [Read GPIO_PAROUT (parout ex_port), Write GPIO_PAROUT (parout ex_port OR BIT 3)]
             else if 0xA00 AND GPIO_OUTPUT_INIT_LOW ex_flags \<noteq> 0
             then [Read GPIO_PAROUT (parout ex_port),
                   Write GPIO_PAROUT (parout ex_port AND NOT (BIT 3))]
             else [])
          @ [Read (PCR1 3) w1, Write (PCR1 3) w2]
      \<and> w1 AND MCHP_GPIO_CTRL_DIR_MASK ex_ctrl = MCHP_GPIO_CTRL_DIR_INPUT ex_ctrl
      \<and> w1 AND MCHP_GPIO_CTRL_AOD_MASK ex_ctrl = MCHP_GPIO_CTRL_AOD_DIS ex_ctrl
      \<and> w2 AND MCHP_GPIO_CTRL_DIR_MASK ex_ctrl = MCHP_GPIO_CTRL_DIR_OUTPUT ex_ctrl
      \<and> w2 AND MCHP_GPIO_CTRL_AOD_MASK ex_ctrl = MCHP_GPIO_CTRL_AOD_DIS ex_ctrl)
   \<and> trace (snd (gpio_xec_configure ex_flags ex_ctrl ex_config 3 0xA00 ex_port)) =
       [Read (PCR1 3) 0, Write (PCR1 3) 0x400, Read GPIO_PAROUT 0, Write GPIO_PAROUT 8,
        Read (PCR1 3) 0x400, Write (PCR1 3) 0x600]"
proof -
  have h1: "ctrl_layout_ok ex_ctrl" by (rule ex_ctrl_ok)
  have h2: "bit (valid_ctrl_mask ex_config) 3" by (rule ex_pin_3_valid)
  have h3: "\<not> open_source_mode ex_flags 0xA00"
    by (simp add: open_source_mode_def ex_flags_def)
  have h4: "(0xA00::u32) AND GPIO_OUTPUT ex_flags \<noteq> 0" by (simp add: ex_flags_def)
  have h5: "trace (snd (gpio_xec_configure ex_flags ex_ctrl ex_config 3 0xA00 ex_port)) =
       [Read (PCR1 3) 0, Write (PCR1 3) 0x400, Read GPIO_PAROUT 0, Write GPIO_PAROUT 8,
        Read (PCR1 3) 0x400, Write (PCR1 3) 0x600]"
    by (simp add: gpio_xec_configure_def open_source_mode_def configure_mask_def
          configure_pcr1_def preload_output_def reg_read_def reg_write_def log_def Let_def
          ex_flags_def ex_ctrl_def ex_config_def ex_port_def BIT_def)
  from configure_output_order [OF h1 h2 h3 h4, of ex_port] h1 h2 h3 h4 h5
  show ?thesis by (intro conjI)
qed

text \<open>
  C1 as stated fails: pin 3 is valid and the flags OUTPUT | SINGLE_ENDED (an open-source
  output) contain OUTPUT, but the call returns \<open>-ENOTSUP\<close> and accesses no register.
\<close>

theorem configure_output_order_counterexample:
  "valid_ctrl_mask ex_config AND BIT 3 \<noteq> 0
   \<and> 0x202 AND GPIO_OUTPUT ex_flags \<noteq> 0
   \<and> gpio_xec_configure ex_flags ex_ctrl ex_config 3 0x202 ex_port = (Inl ENOTSUP, ex_port)
   \<and> trace ex_port = []"
  by (simp add: gpio_xec_configure_def open_source_mode_def ex_flags_def ex_config_def
        ex_port_def BIT_def)

text \<open>The first two accesses of an accepted call, whatever follows them.\<close>

lemma configure_first_write:
  assumes "bit (valid_ctrl_mask config) pin" and "\<not> open_source_mode F flags"
  shows "\<exists>rest. trace (snd (gpio_xec_configure F C config pin flags s)) =
      trace s @ Read (PCR1 pin) (pcr1_regs s pin)
        # Write (PCR1 pin)
            ((pcr1_regs s pin AND NOT (configure_mask C)) OR configure_pcr1 F C flags)
        # rest"
proof (cases "flags AND GPIO_OUTPUT F = 0")
  case True
  from configure_accepted(2) [OF assms True, of C s] show ?thesis by simp
next
  case False
  from configure_accepted(3) [OF assms False, of C s] show ?thesis by simp
qed

text \<open>
  C8. In every call of \<open>gpio_xec_configure\<close> that returns 0, hence makes a first write
  of the control word, the power-gate field of the written value is the "off" encoding
  if the flags argument is exactly equal to \<open>GPIO_DISCONNECTED\<close>, and is cleared (0,
  pads operating) for every other flags value, so also when other flags are combined with
  the sentinel; as the "off" encoding is not 0, the field is "off" if and only if the flags
  equal the sentinel.
\<close>

theorem configure_power_gate:
  assumes "ctrl_layout_ok C"
    and "MCHP_GPIO_CTRL_PWRG_OFF C \<noteq> 0"
    and "fst (gpio_xec_configure F C config pin flags s) = Inr ()"
  shows "\<exists>w1 rest.
      trace (snd (gpio_xec_configure F C config pin flags s)) =
        trace s @ Read (PCR1 pin) (pcr1_regs s pin) # Write (PCR1 pin) w1 # rest
      \<and> w1 AND MCHP_GPIO_CTRL_PWRG_MASK C =
          (if flags = GPIO_DISCONNECTED F then MCHP_GPIO_CTRL_PWRG_OFF C else 0)
      \<and> (w1 AND MCHP_GPIO_CTRL_PWRG_MASK C = MCHP_GPIO_CTRL_PWRG_OFF C)
          = (flags = GPIO_DISCONNECTED F)"
proof -
  note v = configure_success [OF assms(3)]
  from configure_first_write [OF v, of C s] obtain rest where
    t: "trace (snd (gpio_xec_configure F C config pin flags s)) =
      trace s @ Read (PCR1 pin) (pcr1_regs s pin)
        # Write (PCR1 pin)
            ((pcr1_regs s pin AND NOT (configure_mask C)) OR configure_pcr1 F C flags)
        # rest" ..
  note f = first_write_fields(3) [OF assms(1), of "pcr1_regs s pin" F flags]
  from assms(2) have "(((pcr1_regs s pin AND NOT (configure_mask C)) OR configure_pcr1 F C flags)
      AND MCHP_GPIO_CTRL_PWRG_MASK C = MCHP_GPIO_CTRL_PWRG_OFF C) = (flags = GPIO_DISCONNECTED F)"
    by (auto simp: f)
  with t f show ?thesis by blast
qed

text \<open>
  The theorem at pin 3 of the concrete port with flags = \<open>GPIO_DISCONNECTED\<close>, the
  accesses of that call, and those of the call with the flag PULL_UP alone.
\<close>

theorem configure_power_gate_witness:
  "ctrl_layout_ok ex_ctrl
   \<and> MCHP_GPIO_CTRL_PWRG_OFF ex_ctrl \<noteq> 0
   \<and> fst (gpio_xec_configure ex_flags ex_ctrl ex_config 3 0 ex_port) = Inr ()
   \<and> (\<exists>w1 rest.
        trace (snd (gpio_xec_configure ex_flags ex_ctrl ex_config 3 0 ex_port)) =
          trace ex_port @ Read (PCR1 3) (pcr1_regs ex_port 3) # Write (PCR1 3) w1 # rest
        \<and> w1 AND MCHP_GPIO_CTRL_PWRG_MASK ex_ctrl =
            (if 0 = GPIO_DISCONNECTED ex_flags then MCHP_GPIO_CTRL_PWRG_OFF ex_ctrl else 0)
        \<and> (w1 AND MCHP_GPIO_CTRL_PWRG_MASK ex_ctrl = MCHP_GPIO_CTRL_PWRG_OFF ex_ctrl)
            = (0 = GPIO_DISCONNECTED ex_flags))
   \<and> trace (snd (gpio_xec_configure ex_flags ex_ctrl ex_config 3 0 ex_port)) =
       [Read (PCR1 3) 0, Write (PCR1 3) 0x408]
   \<and> trace (snd (gpio_xec_configure ex_flags ex_ctrl ex_config 3 0x10 ex_port)) =
       [Read (PCR1 3) 0, Write (PCR1 3) 0x401]"
proof -
  have h1: "ctrl_layout_ok ex_ctrl" by (rule ex_ctrl_ok)
  have h2: "MCHP_GPIO_CTRL_PWRG_OFF ex_ctrl \<noteq> 0" by (simp add: ex_ctrl_def)
  have h3: "fst (gpio_xec_configure ex_flags ex_ctrl ex_config 3 0 ex_port) = Inr ()"
    by (simp add: gpio_xec_configure_def open_source_mode_def reg_read_def Let_def
          ex_flags_def ex_config_def BIT_def)
  have h4: "trace (snd (gpio_xec_configure ex_flags ex_ctrl ex_config 3 0 ex_port)) =
       [Read (PCR1 3) 0, Write (PCR1 3) 0x408]"
    by (simp add: gpio_xec_configure_def open_source_mode_def configure_mask_def
          configure_pcr1_def reg_read_def reg_write_def log_def Let_def
          ex_flags_def ex_ctrl_def ex_config_def ex_port_def BIT_def)
  have h5: "trace (snd (gpio_xec_configure ex_flags ex_ctrl ex_config 3 0x10 ex_port)) =
       [Read (PCR1 3) 0, Write (PCR1 3) 0x401]"
    by (simp add: gpio_xec_configure_def open_source_mode_def configure_mask_def
          configure_pcr1_def reg_read_def reg_write_def log_def Let_def
          ex_flags_def ex_ctrl_def ex_config_def ex_port_def BIT_def)
  from configure_power_gate [OF h1 h2 h3] h1 h2 h3 h4 h5
  show ?thesis by (intro conjI)
qed

text \<open>
  C10. In every call of \<open>gpio_xec_configure\<close> that returns 0, the first write of the
  control word rewrites the pull-select field, and its value there and in the control word
  that the call leaves is determined by the flags alone: the pull-up encoding if PULL_UP
  is set (also when PULL_DOWN is set too), else the pull-down encoding if PULL_DOWN is set,
  else 0, the no-pull encoding.
\<close>

theorem configure_pull_select:
  assumes "ctrl_layout_ok C"
    and "fst (gpio_xec_configure F C config pin flags s) = Inr ()"
  shows "\<exists>w1 rest.
      trace (snd (gpio_xec_configure F C config pin flags s)) =
        trace s @ Read (PCR1 pin) (pcr1_regs s pin) # Write (PCR1 pin) w1 # rest
      \<and> w1 AND MCHP_GPIO_CTRL_PUD_MASK C =
          (if flags AND GPIO_PULL_UP F \<noteq> 0 then MCHP_GPIO_CTRL_PUD_PU C
           else if flags AND GPIO_PULL_DOWN F \<noteq> 0 then MCHP_GPIO_CTRL_PUD_PD C
           else 0)
      \<and> pcr1_regs (snd (gpio_xec_configure F C config pin flags s)) pin
          AND MCHP_GPIO_CTRL_PUD_MASK C =
          (if flags AND GPIO_PULL_UP F \<noteq> 0 then MCHP_GPIO_CTRL_PUD_PU C
           else if flags AND GPIO_PULL_DOWN F \<noteq> 0 then MCHP_GPIO_CTRL_PUD_PD C
           else 0)"
proof -
  note v = configure_success [OF assms(2)]
  from configure_first_write [OF v, of C s] obtain rest where
    t: "trace (snd (gpio_xec_configure F C config pin flags s)) =
      trace s @ Read (PCR1 pin) (pcr1_regs s pin)
        # Write (PCR1 pin)
            ((pcr1_regs s pin AND NOT (configure_mask C)) OR configure_pcr1 F C flags)
        # rest" ..
  note f = first_write_fields(4) [OF assms(1), of "pcr1_regs s pin" F flags]
  have g: "pcr1_regs (snd (gpio_xec_configure F C config pin flags s)) pin
          AND MCHP_GPIO_CTRL_PUD_MASK C =
          ((pcr1_regs s pin AND NOT (configure_mask C)) OR configure_pcr1 F C flags)
          AND MCHP_GPIO_CTRL_PUD_MASK C"
    by (simp add: configure_accepted(4) [OF v] second_write_fields(4) [OF assms(1)])
  from t f g show ?thesis by (intro exI conjI) simp_all
qed

text \<open>
  The theorem at pin 3 of the concrete port with both PULL_UP and PULL_DOWN set, and the
  accesses of that call: pull-up wins.
\<close>

theorem configure_pull_select_witness:
  "ctrl_layout_ok ex_ctrl
   \<and> fst (gpio_xec_configure ex_flags ex_ctrl ex_config 3 0x30 ex_port) = Inr ()
   \<and> (\<exists>w1 rest.
        trace (snd (gpio_xec_configure ex_flags ex_ctrl ex_config 3 0x30 ex_port)) =
          trace ex_port @ Read (PCR1 3) (pcr1_regs ex_port 3) # Write (PCR1 3) w1 # rest
        \<and> w1 AND MCHP_GPIO_CTRL_PUD_MASK ex_ctrl =
            (if 0x30 AND GPIO_PULL_UP ex_flags \<noteq> 0 then MCHP_GPIO_CTRL_PUD_PU ex_ctrl
             else if 0x30 AND GPIO_PULL_DOWN ex_flags \<noteq> 0 then MCHP_GPIO_CTRL_PUD_PD ex_ctrl
             else 0)
        \<and> pcr1_regs (snd (gpio_xec_configure ex_flags ex_ctrl ex_config 3 0x30 ex_port)) 3
            AND MCHP_GPIO_CTRL_PUD_MASK ex_ctrl =
            (if 0x30 AND GPIO_PULL_UP ex_flags \<noteq> 0 then MCHP_GPIO_CTRL_PUD_PU ex_ctrl
             else if 0x30 AND GPIO_PULL_DOWN ex_flags \<noteq> 0 then MCHP_GPIO_CTRL_PUD_PD ex_ctrl
             else 0))
   \<and> trace (snd (gpio_xec_configure ex_flags ex_ctrl ex_config 3 0x30 ex_port)) =
       [Read (PCR1 3) 0, Write (PCR1 3) 0x401]"
proof -
  have h1: "ctrl_layout_ok ex_ctrl" by (rule ex_ctrl_ok)
  have h2: "fst (gpio_xec_configure ex_flags ex_ctrl ex_config 3 0x30 ex_port) = Inr ()"
    by (simp add: gpio_xec_configure_def open_source_mode_def reg_read_def Let_def
          ex_flags_def ex_config_def BIT_def)
  have h3: "trace (snd (gpio_xec_configure ex_flags ex_ctrl ex_config 3 0x30 ex_port)) =
       [Read (PCR1 3) 0, Write (PCR1 3) 0x401]"
    by (simp add: gpio_xec_configure_def open_source_mode_def configure_mask_def
          configure_pcr1_def reg_read_def reg_write_def log_def Let_def
          ex_flags_def ex_ctrl_def ex_config_def ex_port_def BIT_def)
  from configure_pull_select [OF h1 h2] h1 h2 h3
  show ?thesis by (intro conjI)
qed

text \<open>
  C3. For every pin index (0..31) whose bit is not set in the port's valid-pin bitmap,
  \<open>gpio_xec_configure\<close> and \<open>gpio_xec_pin_interrupt_configure\<close> return
  \<open>-EINVAL\<close> (InvalidPin) and leave the state, trace included, as it was: no
  register is written, or even read, for every flags, mode and trigger argument.
\<close>

theorem invalid_pin_rejected:
  assumes "pin < 32" and "\<not> bit (valid_ctrl_mask config) pin"
  shows "gpio_xec_configure F C config pin flags s = (Inl EINVAL, s)
    \<and> gpio_xec_pin_interrupt_configure F C config pin mode trig s = (Inl EINVAL, s)"
  using assms(2)
  by (simp add: gpio_xec_configure_def gpio_xec_pin_interrupt_configure_def and_BIT_eq_0_iff)

text \<open>The theorem at pin 1 of the concrete port, which does not exist.\<close>

theorem invalid_pin_rejected_witness:
  "(1::nat) < 32 \<and> \<not> bit (valid_ctrl_mask ex_config) 1
   \<and> gpio_xec_configure ex_flags ex_ctrl ex_config 1 0x200 ex_port = (Inl EINVAL, ex_port)
   \<and> gpio_xec_pin_interrupt_configure ex_flags ex_ctrl ex_config 1
        GPIO_INT_MODE_EDGE GPIO_INT_TRIG_BOTH ex_port = (Inl EINVAL, ex_port)"
proof -
  have h1: "(1::nat) < 32" by simp
  from invalid_pin_rejected [OF h1 ex_pin_1_invalid] h1 ex_pin_1_invalid
  show ?thesis by (intro conjI) simp_all
qed

text \<open>
  C7, as amended. \<open>gpio_xec_configure\<close> with SINGLE_ENDED set in the flags and the
  open-drain line bit (\<open>GPIO_LINE_OPEN_DRAIN\<close>) not set returns \<open>-ENOTSUP\<close>
  (UnsupportedMode) for every valid pin and \<open>-EINVAL\<close> (InvalidPin) for every pin
  outside the valid bitmap, whose check comes first; in both cases it accesses no register.
\<close>

theorem open_source_rejected:
  assumes "pin < 32"
    and "flags AND GPIO_SINGLE_ENDED F \<noteq> 0" and "flags AND GPIO_LINE_OPEN_DRAIN F = 0"
  shows "gpio_xec_configure F C config pin flags s =
    (Inl (if bit (valid_ctrl_mask config) pin then ENOTSUP else EINVAL), s)"
  using assms(2,3)
  by (simp add: gpio_xec_configure_def open_source_mode_def and_BIT_eq_0_iff)

text \<open>The theorem at pin 3 of the concrete port, with flags SINGLE_ENDED alone.\<close>

theorem open_source_rejected_witness:
  "(3::nat) < 32
   \<and> 0x2 AND GPIO_SINGLE_ENDED ex_flags \<noteq> 0 \<and> 0x2 AND GPIO_LINE_OPEN_DRAIN ex_flags = 0
   \<and> gpio_xec_configure ex_flags ex_ctrl ex_config 3 0x2 ex_port = (Inl ENOTSUP, ex_port)"
proof -
  have h1: "(3::nat) < 32" by simp
  have h2: "(0x2::u32) AND GPIO_SINGLE_ENDED ex_flags \<noteq> 0" by (simp add: ex_flags_def)
  have h3: "(0x2::u32) AND GPIO_LINE_OPEN_DRAIN ex_flags = 0" by (simp add: ex_flags_def)
  from open_source_rejected [OF h1 h2 h3, of ex_ctrl ex_config ex_port] h1 h2 h3 ex_pin_3_valid
  show ?thesis by simp
qed

text \<open>
  C7 as stated fails for a pin outside the bitmap: with the same flags, pin 1 of the
  concrete port gets \<open>-EINVAL\<close>, not \<open>-ENOTSUP\<close>.
\<close>

theorem open_source_invalid_pin_counterexample:
  "0x2 AND GPIO_SINGLE_ENDED ex_flags \<noteq> 0 \<and> 0x2 AND GPIO_LINE_OPEN_DRAIN ex_flags = 0
   \<and> fst (gpio_xec_configure ex_flags ex_ctrl ex_config 1 0x2 ex_port) = Inl EINVAL
   \<and> fst (gpio_xec_configure ex_flags ex_ctrl ex_config 1 0x2 ex_port) \<noteq> Inl ENOTSUP"
  by (simp add: gpio_xec_configure_def ex_flags_def ex_config_def BIT_def)

subsection \<open>Interrupt configuration\<close>

text \<open>Every detection encoding the driver computes lies inside the detection field.\<close>

lemma detection_fits:
  assumes "ctrl_layout_ok C" and "detection C mode trig = Some idet"
  shows "fits idet (MCHP_GPIO_CTRL_IDET_MASK C)"
  using assms
  by (cases trig)
    (auto simp: detection_def ctrl_layout_ok_def ctrl_values_ok_def split: if_splits)

text \<open>
  What an accepted call of \<open>gpio_xec_pin_interrupt_configure\<close> returns, the accesses
  it makes, in order, and the control word it leaves.
\<close>

lemma interrupt_configure_accepted:
  assumes "bit (valid_ctrl_mask config) pin"
    and "mode = GPIO_INT_MODE_DISABLED \<or> config_flags config AND GPIO_INT_ENABLE F \<noteq> 0"
    and "detection C mode trig = Some idet"
  shows "fst (gpio_xec_pin_interrupt_configure F C config pin mode trig s) = Inr ()"
    and "trace (snd (gpio_xec_pin_interrupt_configure F C config pin mode trig s)) =
        trace s @ [Write GIRQ_ENCLR (BIT pin), Read (PCR1 pin) (pcr1_regs s pin),
          Write (PCR1 pin) ((pcr1_regs s pin AND NOT (MCHP_GPIO_CTRL_IDET_MASK C)) OR idet), DMB]
        @ (if mode \<noteq> GPIO_INT_MODE_DISABLED
           then [Write GIRQ_SRC (BIT pin), Write GIRQ_ENSET (BIT pin)] else [])"
    and "pcr1_regs (snd (gpio_xec_pin_interrupt_configure F C config pin mode trig s)) pin =
        (pcr1_regs s pin AND NOT (MCHP_GPIO_CTRL_IDET_MASK C)) OR idet"
  using assms
  by (auto simp: gpio_xec_pin_interrupt_configure_def and_BIT_eq_0_iff reg_read_def
        reg_write_def dmb_def MCHP_GIRQ_SRC_CLR_def Let_def)

text \<open>A call that returns 0 passed every check.\<close>

lemma interrupt_configure_success:
  assumes "fst (gpio_xec_pin_interrupt_configure F C config pin mode trig s) = Inr ()"
  shows "bit (valid_ctrl_mask config) pin"
    and "mode = GPIO_INT_MODE_DISABLED \<or> config_flags config AND GPIO_INT_ENABLE F \<noteq> 0"
    and "\<exists>idet. detection C mode trig = Some idet"
  using assms
  by (auto simp: gpio_xec_pin_interrupt_configure_def and_BIT_eq_0_iff Let_def
        split: if_splits option.splits prod.splits)

text \<open>
  C2, as amended. For pin indices 0..31: whenever \<open>gpio_xec_configure\<close> returns an
  error, and whenever \<open>gpio_xec_pin_interrupt_configure\<close> returns \<open>-ENOTSUP\<close>
  (UnsupportedMode) or returns \<open>-EINVAL\<close> for a pin outside the bitmap (InvalidPin),
  the state is as it was: no register was accessed. When
  \<open>gpio_xec_pin_interrupt_configure\<close> returns \<open>-EINVAL\<close> for a valid pin, the mode
  is neither disabled nor level and the trigger is none of LOW, HIGH, BOTH
  (InvalidTrigger); the only register access before that return is the write of the pin's
  bit to the aggregator's enable-clear register: the control word, the port output register
  and the aggregator's source register are as they were.
\<close>

theorem errors_and_register_writes:
  assumes "pin < 32"
  shows "(fst (gpio_xec_configure F C config pin flags s) = Inl e1 \<longrightarrow>
            snd (gpio_xec_configure F C config pin flags s) = s)
    \<and> (fst (gpio_xec_pin_interrupt_configure F C config pin mode trig s) = Inl e2 \<longrightarrow>
          (if bit (valid_ctrl_mask config) pin \<and> e2 = EINVAL
           then mode \<noteq> GPIO_INT_MODE_DISABLED \<and> mode \<noteq> GPIO_INT_MODE_LEVEL
             \<and> edge_detection C trig = None
             \<and> trace (snd (gpio_xec_pin_interrupt_configure F C config pin mode trig s)) =
                 trace s @ [Write GIRQ_ENCLR (BIT pin)]
             \<and> pcr1_regs (snd (gpio_xec_pin_interrupt_configure F C config pin mode trig s)) =
                 pcr1_regs s
             \<and> parout (snd (gpio_xec_pin_interrupt_configure F C config pin mode trig s)) =
                 parout s
             \<and> girq_source (snd (gpio_xec_pin_interrupt_configure F C config pin mode trig s)) =
                 girq_source s
           else snd (gpio_xec_pin_interrupt_configure F C config pin mode trig s) = s))"
proof (intro conjI impI)
  assume "fst (gpio_xec_configure F C config pin flags s) = Inl e1"
  then show "snd (gpio_xec_configure F C config pin flags s) = s"
    by (auto simp: gpio_xec_configure_def Let_def split: if_splits prod.splits)
next
  assume "fst (gpio_xec_pin_interrupt_configure F C config pin mode trig s) = Inl e2"
  then show "if bit (valid_ctrl_mask config) pin \<and> e2 = EINVAL
           then mode \<noteq> GPIO_INT_MODE_DISABLED \<and> mode \<noteq> GPIO_INT_MODE_LEVEL
             \<and> edge_detection C trig = None
             \<and> trace (snd (gpio_xec_pin_interrupt_configure F C config pin mode trig s)) =
                 trace s @ [Write GIRQ_ENCLR (BIT pin)]
             \<and> pcr1_regs (snd (gpio_xec_pin_interrupt_configure F C config pin mode trig s)) =
                 pcr1_regs s
             \<and> parout (snd (gpio_xec_pin_interrupt_configure F C config pin mode trig s)) =
                 parout s
             \<and> girq_source (snd (gpio_xec_pin_interrupt_configure F C config pin mode trig s)) =
                 girq_source s
           else snd (gpio_xec_pin_interrupt_configure F C config pin mode trig s) = s"
    by (auto simp: gpio_xec_pin_interrupt_configure_def detection_def and_BIT_eq_0_iff
          reg_write_def Let_def split: if_splits option.splits prod.splits)
qed

text \<open>
  The theorem at pin 3 of the concrete port: flags SINGLE_ENDED for
  \<open>gpio_xec_configure\<close>, and edge mode with a trigger outside the enumeration for
  \<open>gpio_xec_pin_interrupt_configure\<close>.
\<close>

theorem errors_and_register_writes_witness:
  "(3::nat) < 32
   \<and> fst (gpio_xec_configure ex_flags ex_ctrl ex_config 3 0x2 ex_port) = Inl ENOTSUP
   \<and> snd (gpio_xec_configure ex_flags ex_ctrl ex_config 3 0x2 ex_port) = ex_port
   \<and> fst (gpio_xec_pin_interrupt_configure ex_flags ex_ctrl ex_config 3
          GPIO_INT_MODE_EDGE (GPIO_INT_TRIG_other 0) ex_port) = Inl EINVAL
   \<and> trace (snd (gpio_xec_pin_interrupt_configure ex_flags ex_ctrl ex_config 3
          GPIO_INT_MODE_EDGE (GPIO_INT_TRIG_other 0) ex_port)) =
       trace ex_port @ [Write GIRQ_ENCLR (BIT 3)]
   \<and> pcr1_regs (snd (gpio_xec_pin_interrupt_configure ex_flags ex_ctrl ex_config 3
          GPIO_INT_MODE_EDGE (GPIO_INT_TRIG_other 0) ex_port)) = pcr1_regs ex_port"
proof -
  have h1: "(3::nat) < 32" by simp
  have a1: "fst (gpio_xec_configure ex_flags ex_ctrl ex_config 3 0x2 ex_port) = Inl ENOTSUP"
    by (simp add: gpio_xec_configure_def open_source_mode_def ex_flags_def ex_config_def BIT_def)
  have a2: "fst (gpio_xec_pin_interrupt_configure ex_flags ex_ctrl ex_config 3
          GPIO_INT_MODE_EDGE (GPIO_INT_TRIG_other 0) ex_port) = Inl EINVAL"
    by (simp add: gpio_xec_pin_interrupt_configure_def detection_def ex_flags_def
          ex_config_def BIT_def)
  from errors_and_register_writes [OF h1, of ex_flags ex_ctrl ex_config "0x2" ex_port ENOTSUP
      GPIO_INT_MODE_EDGE "GPIO_INT_TRIG_other 0" EINVAL] h1 a1 a2 ex_pin_3_valid
  show ?thesis by simp
qed

text \<open>
  C2 as stated fails on the InvalidTrigger path: for the valid pin 3 in edge mode with a
  trigger outside the enumeration, the call returns \<open>-EINVAL\<close> after it has written
  the pin's bit to the enable-clear register.
\<close>

theorem invalid_trigger_counterexample:
  "fst (gpio_xec_pin_interrupt_configure ex_flags ex_ctrl ex_config 3
          GPIO_INT_MODE_EDGE (GPIO_INT_TRIG_other 0) ex_port) = Inl EINVAL
   \<and> trace ex_port = []
   \<and> trace (snd (gpio_xec_pin_interrupt_configure ex_flags ex_ctrl ex_config 3
          GPIO_INT_MODE_EDGE (GPIO_INT_TRIG_other 0) ex_port)) = [Write GIRQ_ENCLR 8]"
  by (simp add: gpio_xec_pin_interrupt_configure_def detection_def reg_write_def log_def
        ex_flags_def ex_config_def ex_port_def BIT_def)

text \<open>
  C4. In every call of \<open>gpio_xec_pin_interrupt_configure\<close> that returns 0, the
  register accesses are, in this order: the write of the pin's bit to the enable-clear
  register; the read-modify-write of the control word, whose written value carries the
  detection encoding of the mode and trigger in its detection field; the memory barrier;
  and, when the mode is not disabled, the write of the pin's bit to the source register
  (write-1-to-clear) followed by the write of the pin's bit to the enable-set register,
  as the last two accesses. So the enable bit is cleared before the detection field is
  reprogrammed, and it is set only after the detection field is committed, the barrier
  issued and the source bit cleared.
\<close>

theorem interrupt_configure_order:
  assumes "ctrl_layout_ok C"
    and "fst (gpio_xec_pin_interrupt_configure F C config pin mode trig s) = Inr ()"
  shows "\<exists>idet w.
      detection C mode trig = Some idet
      \<and> trace (snd (gpio_xec_pin_interrupt_configure F C config pin mode trig s)) =
          trace s @ [Write GIRQ_ENCLR (BIT pin), Read (PCR1 pin) (pcr1_regs s pin),
            Write (PCR1 pin) w, DMB]
          @ (if mode \<noteq> GPIO_INT_MODE_DISABLED
             then [Write GIRQ_SRC (BIT pin), Write GIRQ_ENSET (BIT pin)] else [])
      \<and> w AND MCHP_GPIO_CTRL_IDET_MASK C = idet"
proof -
  from interrupt_configure_success(3) [OF assms(2)]
  obtain idet where d: "detection C mode trig = Some idet" ..
  note v = interrupt_configure_success(1) [OF assms(2)]
  note c = interrupt_configure_success(2) [OF assms(2)]
  have f: "fits idet (MCHP_GPIO_CTRL_IDET_MASK C)"
    by (rule detection_fits [OF assms(1) d])
  have "((pcr1_regs s pin AND NOT (MCHP_GPIO_CTRL_IDET_MASK C)) OR idet)
          AND MCHP_GPIO_CTRL_IDET_MASK C = idet"
    using f by (simp add: rmw_field [OF fits_refl] fits_def)
  with d interrupt_configure_accepted(2) [OF v c d, of s] show ?thesis by blast
qed

text \<open>
  The theorem at pin 3 of the concrete port, both edges, and the accesses of that call.
\<close>

theorem interrupt_configure_order_witness:
  "ctrl_layout_ok ex_ctrl
   \<and> fst (gpio_xec_pin_interrupt_configure ex_flags ex_ctrl ex_config 3
          GPIO_INT_MODE_EDGE GPIO_INT_TRIG_BOTH ex_port) = Inr ()
   \<and> (\<exists>idet w.
        detection ex_ctrl GPIO_INT_MODE_EDGE GPIO_INT_TRIG_BOTH = Some idet
        \<and> trace (snd (gpio_xec_pin_interrupt_configure ex_flags ex_ctrl ex_config 3
                  GPIO_INT_MODE_EDGE GPIO_INT_TRIG_BOTH ex_port)) =
            trace ex_port @ [Write GIRQ_ENCLR (BIT 3), Read (PCR1 3) (pcr1_regs ex_port 3),
              Write (PCR1 3) w, DMB]
            @ (if GPIO_INT_MODE_EDGE \<noteq> GPIO_INT_MODE_DISABLED
               then [Write GIRQ_SRC (BIT 3), Write GIRQ_ENSET (BIT 3)] else [])
        \<and> w AND MCHP_GPIO_CTRL_IDET_MASK ex_ctrl = idet)
   \<and> trace (snd (gpio_xec_pin_interrupt_configure ex_flags ex_ctrl ex_config 3
             GPIO_INT_MODE_EDGE GPIO_INT_TRIG_BOTH ex_port)) =
       [Write GIRQ_ENCLR 8, Read (PCR1 3) 0, Write (PCR1 3) 0xF0, DMB,
        Write GIRQ_SRC 8, Write GIRQ_ENSET 8]"
proof -
  have h1: "ctrl_layout_ok ex_ctrl" by (rule ex_ctrl_ok)
  have h2: "fst (gpio_xec_pin_interrupt_configure ex_flags ex_ctrl ex_config 3
          GPIO_INT_MODE_EDGE GPIO_INT_TRIG_BOTH ex_port) = Inr ()"
    by (simp add: gpio_xec_pin_interrupt_configure_def detection_def reg_read_def Let_def
          ex_flags_def ex_config_def BIT_def)
  have h3: "trace (snd (gpio_xec_pin_interrupt_configure ex_flags ex_ctrl ex_config 3
             GPIO_INT_MODE_EDGE GPIO_INT_TRIG_BOTH ex_port)) =
       [Write GIRQ_ENCLR 8, Read (PCR1 3) 0, Write (PCR1 3) 0xF0, DMB,
        Write GIRQ_SRC 8, Write GIRQ_ENSET 8]"
    by (simp add: gpio_xec_pin_interrupt_configure_def detection_def reg_read_def
          reg_write_def dmb_def MCHP_GIRQ_SRC_CLR_def log_def Let_def
          ex_flags_def ex_ctrl_def ex_config_def ex_port_def BIT_def)
  from interrupt_configure_order [OF h1 h2] h1 h2 h3
  show ?thesis by (intro conjI)
qed

text \<open>
  C6. For every valid pin and every trigger argument,
  \<open>gpio_xec_pin_interrupt_configure\<close> with mode disabled returns 0, and the value it
  writes to the pin's control word, which the control word then holds, has the explicit
  "disabled" encoding in its detection field; that encoding differs from the level-low
  one, so the field is not left at level-low. Nothing follows the barrier: the enable bit
  stays cleared.
\<close>

theorem interrupt_disable_explicit:
  assumes "ctrl_layout_ok C"
    and "MCHP_GPIO_CTRL_IDET_DISABLE C \<noteq> MCHP_GPIO_CTRL_IDET_LVL_LO C"
    and "bit (valid_ctrl_mask config) pin"
  shows "fst (gpio_xec_pin_interrupt_configure F C config pin GPIO_INT_MODE_DISABLED trig s)
      = Inr ()
    \<and> trace (snd (gpio_xec_pin_interrupt_configure F C config pin GPIO_INT_MODE_DISABLED trig s))
      = trace s @ [Write GIRQ_ENCLR (BIT pin), Read (PCR1 pin) (pcr1_regs s pin),
          Write (PCR1 pin)
            (pcr1_regs
              (snd (gpio_xec_pin_interrupt_configure F C config pin GPIO_INT_MODE_DISABLED trig s))
              pin),
          DMB]
    \<and> pcr1_regs
        (snd (gpio_xec_pin_interrupt_configure F C config pin GPIO_INT_MODE_DISABLED trig s)) pin
        AND MCHP_GPIO_CTRL_IDET_MASK C = MCHP_GPIO_CTRL_IDET_DISABLE C
    \<and> pcr1_regs
        (snd (gpio_xec_pin_interrupt_configure F C config pin GPIO_INT_MODE_DISABLED trig s)) pin
        AND MCHP_GPIO_CTRL_IDET_MASK C \<noteq> MCHP_GPIO_CTRL_IDET_LVL_LO C"
proof -
  have d: "detection C GPIO_INT_MODE_DISABLED trig = Some (MCHP_GPIO_CTRL_IDET_DISABLE C)"
    by (simp add: detection_def)
  have c: "GPIO_INT_MODE_DISABLED = GPIO_INT_MODE_DISABLED
      \<or> config_flags config AND GPIO_INT_ENABLE F \<noteq> 0" by simp
  note a = interrupt_configure_accepted [OF assms(3) c d, of s]
  have f: "((pcr1_regs s pin AND NOT (MCHP_GPIO_CTRL_IDET_MASK C))
             OR MCHP_GPIO_CTRL_IDET_DISABLE C) AND MCHP_GPIO_CTRL_IDET_MASK C
           = MCHP_GPIO_CTRL_IDET_DISABLE C"
    using detection_fits [OF assms(1) d] by (simp add: rmw_field [OF fits_refl] fits_def)
  show ?thesis
    using assms(2) by (simp add: a f)
qed

text \<open>The theorem at pin 3 of the concrete port.\<close>

theorem interrupt_disable_explicit_witness:
  "ctrl_layout_ok ex_ctrl
   \<and> MCHP_GPIO_CTRL_IDET_DISABLE ex_ctrl \<noteq> MCHP_GPIO_CTRL_IDET_LVL_LO ex_ctrl
   \<and> bit (valid_ctrl_mask ex_config) 3
   \<and> fst (gpio_xec_pin_interrupt_configure ex_flags ex_ctrl ex_config 3
          GPIO_INT_MODE_DISABLED GPIO_INT_TRIG_LOW ex_port) = Inr ()
   \<and> pcr1_regs (snd (gpio_xec_pin_interrupt_configure ex_flags ex_ctrl ex_config 3
          GPIO_INT_MODE_DISABLED GPIO_INT_TRIG_LOW ex_port)) 3
        AND MCHP_GPIO_CTRL_IDET_MASK ex_ctrl = 0x40
   \<and> MCHP_GPIO_CTRL_IDET_LVL_LO ex_ctrl = 0"
proof -
  have h2: "MCHP_GPIO_CTRL_IDET_DISABLE ex_ctrl \<noteq> MCHP_GPIO_CTRL_IDET_LVL_LO ex_ctrl"
    by (simp add: ex_ctrl_def)
  have h4: "MCHP_GPIO_CTRL_IDET_DISABLE ex_ctrl = 0x40" "MCHP_GPIO_CTRL_IDET_LVL_LO ex_ctrl = 0"
    by (simp_all add: ex_ctrl_def)
  from interrupt_disable_explicit [OF ex_ctrl_ok h2 ex_pin_3_valid, of ex_flags GPIO_INT_TRIG_LOW ex_port]
    ex_ctrl_ok h2 ex_pin_3_valid h4
  show ?thesis by simp
qed

subsection \<open>Interrupt dispatch\<close>

text \<open>
  \<open>gpio_fire_callbacks\<close> logs one call for each entry whose mask intersects the pins, in
  list order, and touches no register.
\<close>

lemma fire_callbacks_trace:
  "trace (gpio_fire_callbacks cbs pins s) =
     trace s @ map (\<lambda>cb. Call (handler cb) pins) (filter (\<lambda>cb. pin_mask cb AND pins \<noteq> 0) cbs)"
  by (induction cbs arbitrary: s) simp_all

lemma fire_callbacks_regs:
  "girq_source (gpio_fire_callbacks cbs pins s) = girq_source s"
  "girq_enable (gpio_fire_callbacks cbs pins s) = girq_enable s"
  by (induction cbs arbitrary: s) simp_all

text \<open>
  C5. With \<open>R\<close> the aggregator result that the interrupt service routine reads (source
  AND enable), and for any list of registered callback entries: the routine writes
  \<open>R\<close> to the source register, which clears exactly the bits of \<open>R\<close> there, before
  any handler is invoked; the handlers invoked are exactly those of the entries whose
  interest mask intersects \<open>R\<close>, in list order; and each is passed the full value
  \<open>R\<close>, not its own mask's part of it.
\<close>

theorem isr_dispatch:
  "trace (gpio_gpio_xec_port_isr data s) =
     trace s
     @ [Read GIRQ_RESULT (girq_source s AND girq_enable s),
        Write GIRQ_SRC (girq_source s AND girq_enable s)]
     @ map (\<lambda>cb. Call (handler cb) (girq_source s AND girq_enable s))
         (filter (\<lambda>cb. pin_mask cb AND (girq_source s AND girq_enable s) \<noteq> 0) (callbacks data))
   \<and> girq_source (gpio_gpio_xec_port_isr data s) =
       girq_source s AND NOT (girq_source s AND girq_enable s)"
  by (simp add: gpio_gpio_xec_port_isr_def reg_read_def reg_write_def fire_callbacks_trace
        fire_callbacks_regs)

text \<open>
  Three entries with masks for pin 3, pin 4 and both, pending pins 2, 3 and 4, and pins
  2 and 3 enabled: the result is 0xC, and the first and third handlers are called with
  it.
\<close>

lemma isr_example:
  "trace (gpio_gpio_xec_port_isr
      \<lparr>callbacks = [\<lparr>handler = 1, pin_mask = 0x8\<rparr>, \<lparr>handler = 2, pin_mask = 0x10\<rparr>,
                    \<lparr>handler = 3, pin_mask = 0x18\<rparr>]\<rparr>
      (ex_port\<lparr>girq_source := 0x1C, girq_enable := 0xC\<rparr>)) =
    [Read GIRQ_RESULT 0xC, Write GIRQ_SRC 0xC, Call 1 0xC, Call 3 0xC]"
  by (simp add: gpio_gpio_xec_port_isr_def reg_read_def reg_write_def log_def ex_port_def)

subsection \<open>Port bulk operations\<close>

text \<open>
  C9. For every state of the port, hence every value of the port output register, and
  every 32-bit mask, \<open>toggle_bits(mask)\<close> applied twice in succession returns the
  output register to its original value; both calls return 0.
\<close>

theorem toggle_bits_twice:
  "parout (snd (gpio_xec_port_toggle_bits msk (snd (gpio_xec_port_toggle_bits msk s))))
     = parout s
   \<and> fst (gpio_xec_port_toggle_bits msk s) = Inr ()
   \<and> fst (gpio_xec_port_toggle_bits msk (snd (gpio_xec_port_toggle_bits msk s))) = Inr ()"
  by (simp add: gpio_xec_port_toggle_bits_def reg_read_def reg_write_def log_def xor.assoc)

end
